theory Spec2Isabelle
  imports
    Complex_Main
    "HOL-Library.AList"
    "HOL-Library.Char_ord"
    "HOL-Library.List_Lexorder"
begin

section \<open>Python errors\<close>

text \<open>
  The notebooks are Python. An exception raised by a statement is the \<open>Inl\<close> branch of
  the result of its model. \<open>NameError\<close> is raised by the use of a name that no import
  and no assignment has bound. \<open>SyntaxError\<close> is raised by a cell that does not parse, before
  any of its statements runs.
\<close>

datatype error =
  KeyError | IndexError | TypeError | AttributeError | RuntimeError | NameError | SyntaxError

section \<open>Image classification: the preprocessing function \<open>transforms\<close>\<close>

text \<open>
  \<^verbatim>\<open>
  _transforms = Compose([RandomResizedCrop(size), ToTensor(), normalize])

  def transforms(examples):
      examples["pixel_values"] = [_transforms(img.convert("RGB")) for img in examples["image"]]
      del examples["image"]
      return examples
  \<close>
  A batch is a dict from column names to columns. \<open>img.convert\<close> is a method of images
  only, so a column that does not hold images raises \<open>AttributeError\<close>, and a batch with
  no \<open>image\<close> column raises \<open>KeyError\<close>. \<open>_transforms\<close> begins with a random crop: it
  is a parameter here (\<open>img_transforms\<close>) that reads and advances the state of the random
  number generator; \<open>convert\<close> is the parameter for \<open>img.convert("RGB")\<close>.
\<close>

datatype ('img, 'px) column =
    ImageCol "'img list"
  | PixelCol "'px list"
  | LabelCol "int list"

type_synonym ('img, 'px) batch = "string \<rightharpoonup> ('img, 'px) column"

text \<open>The list comprehension, left to right, threading the generator's state.\<close>

fun comprehension :: "('r \<Rightarrow> 'a \<Rightarrow> 'b \<times> 'r) \<Rightarrow> 'r \<Rightarrow> 'a list \<Rightarrow> 'b list \<times> 'r" where
  "comprehension f r [] = ([], r)"
| "comprehension f r (x # xs) =
     (let (y, r1) = f r x; (ys, r2) = comprehension f r1 xs in (y # ys, r2))"

definition transforms ::
  "('img \<Rightarrow> 'img) \<Rightarrow> ('r \<Rightarrow> 'img \<Rightarrow> 'px \<times> 'r) \<Rightarrow> 'r \<Rightarrow> ('img, 'px) batch
     \<Rightarrow> error + (('img, 'px) batch \<times> 'r)" where
  "transforms convert img_transforms rng examples =
     (case examples ''image'' of
        None \<Rightarrow> Inl KeyError
      | Some (ImageCol imgs) \<Rightarrow>
          (let (pixel_values, rng1) =
                 comprehension (\<lambda>r img. img_transforms r (convert img)) rng imgs;
               examples1 = examples(''pixel_values'' \<mapsto> PixelCol pixel_values);
               examples2 = examples1(''image'' := None)
           in Inr (examples2, rng1))
      | Some _ \<Rightarrow> Inl AttributeError)"

section \<open>Label dictionaries of the classification notebooks\<close>

subsection \<open>Python dicts and strings\<close>

text \<open>
  A Python dict keeps its keys in insertion order, and \<open>d[k] = v\<close> on a key that is
  present replaces the value in place: an association list with \<open>AList.update\<close>.
  \<open>d[k]\<close> on a missing key raises \<open>KeyError\<close>.
\<close>

type_synonym ('k, 'v) dict = "('k \<times> 'v) list"

definition getitem :: "('k, 'v) dict \<Rightarrow> 'k \<Rightarrow> error + 'v" where
  "getitem d k = (case map_of d k of None \<Rightarrow> Inl KeyError | Some v \<Rightarrow> Inr v)"

text \<open>\<open>s.split(sep)\<close> for a separator of one character: the pieces between the separators.\<close>

fun split_on :: "char \<Rightarrow> string \<Rightarrow> string list" where
  "split_on sep [] = [[]]"
| "split_on sep (c # cs) =
     (if c = sep then [] # split_on sep cs
      else (case split_on sep cs of
              p # ps \<Rightarrow> (c # p) # ps
            | [] \<Rightarrow> [[c]]))"

text \<open>\<open>str(i)\<close> for an integer \<open>i \<ge> 0\<close>: its decimal digits.\<close>

definition digit :: "nat \<Rightarrow> char" where
  "digit d = char_of (48 + d)"

fun str :: "nat \<Rightarrow> string" where
  "str n = (if n < 10 then [digit n] else str (n div 10) @ [digit (n mod 10)])"

declare str.simps [simp del]

subsection \<open>Video classification\<close>

text \<open>
  \<^verbatim>\<open>
  class_labels = sorted({str(path).split("/")[2] for path in all_video_file_paths})
  label2id = {label: i for i, label in enumerate(class_labels)}
  id2label = {i: label for label, i in label2id.items()}
  \<close>
  The paths are given as their strings. A path with fewer than three components raises
  \<open>IndexError\<close> at \<open>[2]\<close>.
\<close>

definition class_of_path :: "string \<Rightarrow> error + string" where
  "class_of_path path =
     (let parts = split_on CHR ''/'' path
      in if 2 < length parts then Inr (parts ! 2) else Inl IndexError)"

fun class_set :: "string list \<Rightarrow> error + string set" where
  "class_set [] = Inr {}"
| "class_set (path # paths) =
     (case class_of_path path of
        Inl e \<Rightarrow> Inl e
      | Inr c \<Rightarrow> (case class_set paths of Inl e \<Rightarrow> Inl e | Inr s \<Rightarrow> Inr (insert c s)))"

definition class_labels :: "string list \<Rightarrow> error + string list" where
  "class_labels all_video_file_paths =
     (case class_set all_video_file_paths of
        Inl e \<Rightarrow> Inl e
      | Inr s \<Rightarrow> Inr (sorted_list_of_set s))"

definition video_label2id :: "string list \<Rightarrow> (string, nat) dict" where
  "video_label2id labels =
     fold (\<lambda>(i, label) d. AList.update label i d) (enumerate 0 labels) []"

definition video_id2label :: "(string, nat) dict \<Rightarrow> (nat, string) dict" where
  "video_id2label label2id =
     fold (\<lambda>(label, i) d. AList.update i label d) label2id []"

subsection \<open>Image classification\<close>

text \<open>
  \<^verbatim>\<open>
  labels = food["train"].features["label"].names
  label2id, id2label = dict(), dict()
  for i, label in enumerate(labels):
      label2id[label] = str(i)
      id2label[str(i)] = label
  \<close>
  \<open>labels\<close> is the list of names of the dataset's \<open>ClassLabel\<close> feature, the argument
  here; the result is the pair \<open>(label2id, id2label)\<close> after the loop.
\<close>

definition image_label_dicts :: "string list \<Rightarrow> (string, string) dict \<times> (string, string) dict" where
  "image_label_dicts labels =
     fold (\<lambda>(i, label) (label2id, id2label).
             (AList.update label (str i) label2id, AList.update (str i) label id2label))
          (enumerate 0 labels) ([], [])"

section \<open>Knowledge distillation: \<open>ImageDistilTrainer\<close>\<close>

subsection \<open>The tensor operations it calls\<close>










subsection \<open>Floating point computations\<close>






subsection \<open>Models, gradient mode\<close>









subsection \<open>The trainer\<close>




subsection \<open>The formulas of the specification\<close>







section \<open>Semantic segmentation: the prediction \<open>pred_seg\<close>\<close>

text \<open>
  \<^verbatim>\<open>
  outputs = model(pixel_values=pixel_values)
  logits = outputs.logits.cpu()

  upsampled_logits = nn.functional.interpolate(
      logits,
      size=image.size[::-1],
      mode="bilinear",
      align_corners=False,
  )

  pred_seg = upsampled_logits.argmax(dim=1)[0]
  \<close>
  The cell reads the name \<open>nn\<close>. The notebook imports \<open>torch\<close> and never binds \<open>nn\<close>
  (its \<open>compute_metrics\<close> spells the same call \<open>torch.nn.functional.interpolate\<close>), so
  as written the cell raises \<open>NameError\<close> there and assigns neither \<open>upsampled_logits\<close>
  nor \<open>pred_seg\<close>. The names bound at that point are an argument of the model
  (\<open>globals\<close>); where \<open>nn\<close> is among them it is taken to be \<open>torch.nn\<close>.

  The logits are a tensor of shape (batch, classes, height, width): nested lists, with
  numbers modelled as reals (so the rounding of the interpolation, and with it the
  choice among classes that are equal or nearly equal at a pixel, is that of exact
  arithmetic). A nested list is such a tensor when it is rectangular. The model of the
  notebook is built from \<open>id2label\<close>, so its logits have \<open>num_labels = len(id2label)\<close>
  classes.
\<close>

text \<open>
  The names the image-segmentation notebook has bound when the inference cell reaches
  the call of \<open>interpolate\<close>: those of its import cell, the variables and functions of
  the cells before, and the variables the inference cell has assigned so far.
\<close>

definition segmentation_globals :: "string list" where
  "segmentation_globals =
     [''json'', ''torch'', ''requests'', ''evaluate'', ''np'', ''plt'', ''Image'',
      ''load_dataset'', ''cached_download'', ''hf_hub_url'', ''ColorJitter'', ''pipeline'',
      ''AutoImageProcessor'', ''AutoModelForSemanticSegmentation'', ''TrainingArguments'',
      ''Trainer'',
      ''url'', ''image'', ''semantic_segmentation'', ''results'', ''labels'',
      ''required_label'', ''instance_segmentation'', ''panoptic_segmentation'',
      ''ds'', ''train_ds'', ''test_ds'', ''repo_id'', ''filename'', ''id2label'',
      ''label2id'', ''num_labels'', ''checkpoint'', ''image_processor'', ''jitter'',
      ''train_transforms'', ''val_transforms'', ''metric'', ''compute_metrics'', ''model'',
      ''training_args'', ''trainer'',
      ''encoding'', ''device'', ''pixel_values'', ''outputs'', ''logits'']"

type_synonym plane = "real list list"
type_synonym tensor4 = "plane list list"

definition is_tensor4 :: "nat \<Rightarrow> nat \<Rightarrow> nat \<Rightarrow> nat \<Rightarrow> tensor4 \<Rightarrow> bool" where
  "is_tensor4 n c h w t \<longleftrightarrow>
     length t = n
     \<and> (\<forall>img\<in>set t. length img = c
           \<and> (\<forall>p\<in>set img. length p = h \<and> (\<forall>row\<in>set p. length row = w)))"

text \<open>
  Bilinear interpolation of the library with \<open>align_corners=False\<close> and no scale
  factor. The source position of an output index is
  \<open>scale \<cdot> (index + 0.5) - 0.5\<close> with \<open>scale = input_size / output_size\<close>, not below zero;
  its two neighbours and their weights:
\<close>

definition source_index :: "real \<Rightarrow> nat \<Rightarrow> real" where
  "source_index scale dst_index =
     (let src_idx = scale * (real dst_index + 1/2) - 1/2
      in if src_idx < 0 then 0 else src_idx)"

definition source_index_and_lambda :: "nat \<Rightarrow> nat \<Rightarrow> nat \<Rightarrow> nat \<times> nat \<times> real \<times> real" where
  "source_index_and_lambda input_size output_size output_index =
     (if output_size = input_size then (output_index, output_index, 1, 0)
      else
        let real_input_index =
              source_index (real input_size / real output_size) output_index;
            input_index0 = min (nat \<lfloor>real_input_index\<rfloor>) (input_size - 1);
            lambda1 = min (max (real_input_index - real input_index0) 0) 1;
            offset = (if input_index0 < input_size - 1 then 1 else 0);
            input_index1 = input_index0 + offset;
            lambda0 = 1 - lambda1
        in (input_index0, input_index1, lambda0, lambda1))"

text \<open>One plane (one class of one image), resized to \<open>output_size = (height, width)\<close>.\<close>

definition upsample_plane :: "nat \<times> nat \<Rightarrow> plane \<Rightarrow> plane" where
  "upsample_plane output_size p =
     (let (output_height, output_width) = output_size;
          input_height = length p;
          input_width = length (hd p)
      in map (\<lambda>y.
           let (h0, h1, h0lambda, h1lambda) =
                 source_index_and_lambda input_height output_height y
           in map (\<lambda>x.
                let (w0, w1, w0lambda, w1lambda) =
                      source_index_and_lambda input_width output_width x
                in h0lambda * (w0lambda * p ! h0 ! w0 + w1lambda * p ! h0 ! w1)
                 + h1lambda * (w0lambda * p ! h1 ! w0 + w1lambda * p ! h1 ! w1))
              [0..<output_width])
         [0..<output_height])"

text \<open>
  \<open>interpolate\<close> raises \<open>RuntimeError\<close> when the input has no class, a spatial
  dimension of the input is empty, or an output size is zero.
\<close>

definition interpolate :: "tensor4 \<Rightarrow> nat \<times> nat \<Rightarrow> error + tensor4" where
  "interpolate input output_size =
     (if list_ex (\<lambda>img. img = [] \<or> list_ex (\<lambda>p. p = [] \<or> list_ex (\<lambda>row. row = []) p) img) input
         \<or> fst output_size = 0 \<or> snd output_size = 0
      then Inl RuntimeError
      else Inr (map (map (upsample_plane output_size)) input))"

text \<open>
  \<open>argmax\<close> returns the index of the first maximal value; over an empty dimension
  the library raises \<open>IndexError\<close>, which \<open>argmax_dim1\<close> (\<open>.argmax(dim=1)\<close>) checks
  before it reduces the class dimension at every pixel.
\<close>

fun argmax_from :: "nat \<Rightarrow> real \<Rightarrow> nat \<Rightarrow> real list \<Rightarrow> nat" where
  "argmax_from best best_value i [] = best"
| "argmax_from best best_value i (x # xs) =
     (if best_value < x then argmax_from i x (Suc i) xs
      else argmax_from best best_value (Suc i) xs)"

definition argmax :: "real list \<Rightarrow> nat" where
  "argmax xs = (case xs of [] \<Rightarrow> 0 | x # rest \<Rightarrow> argmax_from 0 x 1 rest)"

definition argmax_dim1 :: "tensor4 \<Rightarrow> error + nat list list list" where
  "argmax_dim1 t =
     (if list_ex (\<lambda>img. img = []) t then Inl IndexError
      else Inr (map (\<lambda>img.
             map (\<lambda>y. map (\<lambda>x. argmax (map (\<lambda>p. p ! y ! x) img))
                          [0..<length (hd (hd img))])
                 [0..<length (hd img)]) t))"

text \<open>
  \<open>image.size\<close> is (width, height), \<open>image.size[::-1]\<close> is (height, width);
  \<open>[0]\<close> takes the first image of the batch and raises \<open>IndexError\<close> on an empty batch.
\<close>

definition pred_seg :: "string list \<Rightarrow> tensor4 \<Rightarrow> nat \<times> nat \<Rightarrow> error + nat list list" where
  "pred_seg globals seg_logits image_size =
     (if ''nn'' \<notin> set globals then Inl NameError
      else
        case interpolate seg_logits (snd image_size, fst image_size) of
          Inl e \<Rightarrow> Inl e
        | Inr upsampled_logits \<Rightarrow>
            (case argmax_dim1 upsampled_logits of
               Inl e \<Rightarrow> Inl e
             | Inr labels \<Rightarrow> (case labels of [] \<Rightarrow> Inl IndexError | first # _ \<Rightarrow> Inr first)))"

section \<open>The notebooks as scripts\<close>

text \<open>
  Each notebook is a script without branches on its data. Run from top to bottom it
  executes its statements in order and stops at the first exception that is raised,
  which in a notebook nothing catches. Up to there it makes a sequence of calls into the
  libraries; that sequence is the notebook's behaviour in this model.

  A statement reads names, makes calls and binds names. The use of a name that no
  earlier statement has bound raises \<open>NameError\<close> (the names of Python's builtins are
  always bound and are not listed); a cell is cut into statements so that an unbound name
  is met before the first call of its statement. A library call returns unless the text
  of a notebook below says why it raises; the statement of a call that raises binds
  nothing. A statement that calls a function defined in the
  notebook, or lets a library call it, needs the names the body of that function reads.
  The Python variables of a notebook are the variables of a \<open>let\<close>, so that a call holds
  the value its argument has where the call is made.

  The placement of tensors and models on a device is left out: a notebook is taken to run
  on a host that has the device it names. Arithmetic on arrays and tensors already
  computed, and the value a cell only displays, make no call. The calls are:
  \<^item> \<open>PipInstall\<close>: \<open>pip install\<close> of the packages;
  \<^item> \<open>LoadPipeline task checkpoint\<close>: \<open>pipeline(task, model=checkpoint)\<close>;
    \<open>FromPretrained cls checkpoint\<close>: \<open>cls.from_pretrained(checkpoint)\<close>;
  \<^item> \<open>OpenImage url\<close>: \<open>Image.open(requests.get(url, stream=True).raw)\<close>;
    \<open>LoadDataset name split\<close>: \<open>load_dataset\<close>; \<open>Download repo file\<close>: a file of the hub;
    \<open>Preprocess f\<close>: the call \<open>f\<close> that prepares data (a split, a transform, a sample);
  \<^item> \<open>RunPipeline p image kwargs\<close>: the pipeline \<open>p\<close> applied to an image
    (\<open>RunPipelineUrl\<close>: to the file at a URL);
    \<open>RunProcessor checkpoint image prompt\<close>: the processor of a checkpoint applied to an
    image, with \<open>input_points\<close> or \<open>input_boxes\<close> if given; its result is the value
    \<open>Processed checkpoint image prompt\<close>;
    \<open>RunModel m inputs\<close>: a forward call of the model \<open>m\<close> on \<open>inputs\<close>;
    \<open>PostProcessMasks p inputs\<close>: \<open>post_process_masks\<close> of the processor \<open>p\<close> on the
    output of the model for \<open>inputs\<close>;
    \<open>Train\<close>, \<open>Evaluate\<close>: \<open>trainer.train()\<close>, \<open>trainer.evaluate(...)\<close>;
  \<^item> \<open>Plot f\<close>: the matplotlib call \<open>f\<close>;
  \<^item> \<open>Other f\<close>: any other call.
\<close>

datatype image =
    UrlImage string
  | ConvertRGB image
  | DatasetImage string string

datatype prompt =
    InputPoints "int list list list"
  | InputBoxes "int list list list list"

type_synonym pipeline = "string \<times> string"

datatype model_inputs =
    Processed string image "prompt option"
  | Sample string

datatype call =
    PipInstall "string list"
  | LoadPipeline string string
  | FromPretrained string string
  | OpenImage string
  | LoadDataset string string
  | Download string string
  | Preprocess string
  | RunPipeline pipeline image "(string \<times> real) list"
  | RunPipelineUrl pipeline string
  | RunProcessor string image "prompt option"
  | RunModel string model_inputs
  | PostProcessMasks string model_inputs
  | Train
  | Evaluate
  | Plot string
  | Other string

subsection \<open>Statements and their execution\<close>

record stmt =
  needs :: "string list"
  calls :: "call list"
  raises :: "error option"
  binds :: "string list"

text \<open>
  An import or a definition; a statement of plain Python; a statement that calls the
  libraries; a statement whose last call raises.
\<close>

definition imported :: "string list \<Rightarrow> stmt" where
  "imported names = \<lparr>needs = [], calls = [], raises = None, binds = names\<rparr>"

definition python :: "string list \<Rightarrow> string list \<Rightarrow> stmt" where
  "python reads names = \<lparr>needs = reads, calls = [], raises = None, binds = names\<rparr>"

definition library :: "string list \<Rightarrow> call list \<Rightarrow> string list \<Rightarrow> stmt" where
  "library reads cs names = \<lparr>needs = reads, calls = cs, raises = None, binds = names\<rparr>"

definition raising :: "string list \<Rightarrow> call list \<Rightarrow> error \<Rightarrow> stmt" where
  "raising reads cs e = \<lparr>needs = reads, calls = cs, raises = Some e, binds = []\<rparr>"

record run_state =
  bound :: "string list"
  trace :: "call list"
  stopped :: "error option"

definition exec :: "stmt \<Rightarrow> run_state \<Rightarrow> run_state" where
  "exec s st =
     (if stopped st \<noteq> None then st
      else if \<not> list_all (\<lambda>n. n \<in> set (bound st)) (needs s)
      then st\<lparr>stopped := Some NameError\<rparr>
      else case raises s of
             Some e \<Rightarrow> st\<lparr>trace := trace st @ calls s, stopped := Some e\<rparr>
           | None \<Rightarrow>
               st\<lparr>bound := bound st @ filter (\<lambda>n. n \<notin> set (bound st)) (remdups (binds s)),
                  trace := trace st @ calls s\<rparr>)"

definition run :: "stmt list list \<Rightarrow> run_state" where
  "run cells = fold exec (concat cells) \<lparr>bound = [], trace = [], stopped = None\<rparr>"


subsection \<open>Mask generation\<close>



subsection \<open>Image segmentation\<close>

text \<open>
  The three pipelines of the first part run on the image of cell 7; cell 35 binds
  \<open>image\<close> anew, to an image of the dataset (\<open>test_image\<close> here), for the inference of
  cell 36. That cell reads \<open>nn\<close>, which the notebook never binds. In cell 42 the first
  call of \<open>create_dataset\<close> sorts a list that holds strings and \<open>...\<close>, which raises
  \<open>TypeError\<close>; cell 43 is not indented as Python requires.
\<close>

definition image_segmentation_cells :: "stmt list list" where
  "image_segmentation_cells =
     (let url = ''https://huggingface.co/datasets/huggingface/documentation-images/resolve/main/transformers/tasks/segmentation_input.jpg'';
          image = UrlImage url;
          semantic_segmentation =
            (''image-segmentation'', ''nvidia/segformer-b1-finetuned-cityscapes-1024-1024'');
          instance_segmentation =
            (''image-segmentation'', ''facebook/mask2former-swin-large-cityscapes-instance'');
          panoptic_segmentation =
            (''image-segmentation'', ''facebook/mask2former-swin-large-cityscapes-panoptic'');
          checkpoint = ''nvidia/mit-b0'';
          test_image = DatasetImage ''scene_parse_150'' ''test''
      in [
        [library [] [PipInstall [''datasets'', ''transformers'', ''evaluate'', ''accelerate'']]
                  []] \<comment> \<open>cell 2\<close>,
        [imported [''json'', ''torch'', ''requests'', ''evaluate'', ''np'', ''plt'', ''Image'',
                  ''load_dataset'', ''cached_download'', ''hf_hub_url'', ''ColorJitter'',
                  ''pipeline'', ''AutoImageProcessor'', ''AutoModelForSemanticSegmentation'',
                  ''TrainingArguments'', ''Trainer'']] \<comment> \<open>cell 3\<close>,
        [python [] [''url''],
         library [''Image'', ''requests'', ''url''] [OpenImage url] [''image''],
         python [''image''] []] \<comment> \<open>cell 7\<close>,
        [library [''pipeline'']
                  [LoadPipeline (fst semantic_segmentation) (snd semantic_segmentation)]
                  [''semantic_segmentation''],
         library [''semantic_segmentation'', ''image'']
                   [RunPipeline semantic_segmentation image []] [''results''],
         python [''results''] []] \<comment> \<open>cell 8\<close>,
        [python [''results''] [''labels''],
         python [] [''required_label''],
         python [''results'', ''labels'', ''required_label'']
                   []] \<comment> \<open>cell 9\<close>,
        [library [''pipeline'']
                  [LoadPipeline (fst instance_segmentation) (snd instance_segmentation)]
                  [''instance_segmentation''],
         library [''instance_segmentation'', ''image'']
                   [RunPipeline instance_segmentation image []] [''results''],
         python [''results''] []] \<comment> \<open>cell 12\<close>,
        [python [''results''] []] \<comment> \<open>cell 13\<close>,
        [library [''pipeline'']
                  [LoadPipeline (fst panoptic_segmentation) (snd panoptic_segmentation)]
                  [''panoptic_segmentation''],
         library [''panoptic_segmentation'', ''image'']
                   [RunPipeline panoptic_segmentation image []] [''results''],
         python [''results''] []] \<comment> \<open>cell 16\<close>,
        [library [''load_dataset''] [LoadDataset ''scene_parse_150'' ''train[:50]''] [''ds''],
         library [''ds''] [Preprocess ''train_test_split''] [''ds''],
         python [''ds''] [''train_ds''],
         python [''ds''] [''test_ds'']] \<comment> \<open>cell 19\<close>,
        [python [''train_ds''] []] \<comment> \<open>cell 20\<close>,
        [python [''train_ds''] []] \<comment> \<open>cell 21\<close>,
        [python [] [''repo_id''],
         python [] [''filename''],
         library [''json'', ''cached_download'', ''hf_hub_url'', ''repo_id'', ''filename'']
                   [Download ''huggingface/label-files'' ''ade20k-id2label.json''] [''id2label''],
         python [''id2label''] [''id2label''],
         python [''id2label''] [''label2id''],
         python [''id2label''] [''num_labels'']] \<comment> \<open>cell 22\<close>,
        [python [] [''checkpoint''],
         library [''AutoImageProcessor'', ''checkpoint'']
                   [FromPretrained ''AutoImageProcessor'' checkpoint]
                   [''image_processor'']] \<comment> \<open>cell 24\<close>,
        [library [''ColorJitter''] [Other ''ColorJitter'']
                  [''jitter'']] \<comment> \<open>cell 25\<close>,
        [python [] [''train_transforms''],
         python [] [''val_transforms'']] \<comment> \<open>cell 26\<close>,
        [library [''train_ds'', ''train_transforms''] [Preprocess ''set_transform''] [],
         library [''test_ds'', ''val_transforms''] [Preprocess ''set_transform'']
                   []] \<comment> \<open>cell 27\<close>,
        [library [''evaluate''] [Other ''evaluate.load'']
                  [''metric'']] \<comment> \<open>cell 29\<close>,
        [python [] [''compute_metrics'']] \<comment> \<open>cell 30\<close>,
        [library [''AutoModelForSemanticSegmentation'', ''checkpoint'', ''id2label'',
                  ''label2id''] [FromPretrained ''AutoModelForSemanticSegmentation'' checkpoint]
                  [''model'']] \<comment> \<open>cell 32\<close>,
        [library [''TrainingArguments''] [Other ''TrainingArguments''] [''training_args''],
         library [''Trainer'', ''model'', ''training_args'', ''train_ds'', ''test_ds'',
                   ''compute_metrics''] [Other ''Trainer''] [''trainer''],
         library [''trainer'', ''jitter'', ''image_processor''] [Train]
                   []] \<comment> \<open>cell 33\<close>,
        [library [''load_dataset''] [LoadDataset ''scene_parse_150'' ''train[:50]''] [''ds''],
         library [''ds''] [Preprocess ''train_test_split''] [''ds''],
         python [''ds''] [''test_ds''],
         python [''ds''] [''image''],
         python [''image''] []] \<comment> \<open>cell 35\<close>,
        [library [''image_processor'', ''image''] [RunProcessor checkpoint test_image None]
                  [''encoding''],
         python [''torch''] [''device''],
         python [''encoding'', ''device''] [''pixel_values''],
         library [''model'', ''pixel_values'']
                   [RunModel checkpoint (Processed checkpoint test_image None)] [''outputs''],
         python [''outputs''] [''logits''],
         library [''nn'', ''logits'', ''image''] [Other ''interpolate''] [''upsampled_logits''],
         python [''upsampled_logits''] [''pred_seg'']] \<comment> \<open>cell 36\<close>,
        [python [] [''ade_palette'']] \<comment> \<open>cell 37\<close>,
        [python [''np'', ''pred_seg''] [''color_seg''],
         python [''np'', ''ade_palette''] [''palette''],
         python [''palette'', ''color_seg'', ''pred_seg''] [''label'', ''color''],
         python [''color_seg''] [''color_seg''],
         python [''np'', ''image'', ''color_seg''] [''img''],
         python [''img'', ''np''] [''img''],
         library [''plt''] [Plot ''plt.figure''] [],
         library [''plt'', ''img''] [Plot ''plt.imshow''] [],
         library [''plt''] [Plot ''plt.show''] []] \<comment> \<open>cell 38\<close>,
        [imported [''Dataset'', ''DatasetDict'', ''Image''],
         python [] [''image_paths_train''],
         python [] [''label_paths_train''],
         python [] [''image_paths_validation''],
         python [] [''label_paths_validation''],
         python [] [''create_dataset''],
         raising [''create_dataset'', ''image_paths_train'', ''label_paths_train'', ''Dataset'']
                   [] TypeError,
         library [''create_dataset'', ''image_paths_validation'', ''label_paths_validation'',
                   ''Dataset''] [Other ''Dataset.from_dict'', Other ''cast_column'',
                   Other ''cast_column''] [''validation_dataset''],
         library [''DatasetDict'', ''train_dataset'', ''validation_dataset'']
                   [Other ''DatasetDict''] [''dataset''],
         library [''dataset''] [Other ''push_to_hub''] []] \<comment> \<open>cell 42\<close>,
        [raising [] [] SyntaxError] \<comment> \<open>cell 43\<close>])"

definition image_segmentation_notebook :: "call list" where
  "image_segmentation_notebook = trace (run image_segmentation_cells)"

subsection \<open>Video classification\<close>



subsection \<open>Image classification\<close>



subsection \<open>Knowledge distillation\<close>



subsection \<open>Observations on a sequence of calls\<close>











text \<open>
  The runs of a pipeline on an image, and the runs of a processor with a prompt; a prompt
  of one point, and of one box \<open>[x_min, y_min, x_max, y_max]\<close>; the calls of a notebook
  other than its plotting calls.
\<close>

fun pipeline_runs :: "call list \<Rightarrow> (pipeline \<times> image \<times> (string \<times> real) list) list" where
  "pipeline_runs [] = []"
| "pipeline_runs (RunPipeline p img kwargs # cs) = (p, img, kwargs) # pipeline_runs cs"
| "pipeline_runs (_ # cs) = pipeline_runs cs"





section \<open>Properties\<close>

subsection \<open>The preprocessing function \<open>transforms\<close>\<close>

lemma length_comprehension:
  "comprehension f r xs = (ys, r') \<Longrightarrow> length ys = length xs"
  by (induction xs arbitrary: r ys r') (auto split: prod.splits)

text \<open>
  C10. For every batch with an \<open>image\<close> column, \<open>transforms\<close> returns a batch without
  the \<open>image\<close> field, with a \<open>pixel_values\<close> field that holds one value per image,
  computed from the images by \<open>_transforms\<close> after the conversion to RGB, and with every
  other field (\<open>label\<close> among them) as it was.
\<close>

theorem transforms_frame:
  assumes "examples ''image'' = Some (ImageCol imgs)"
  shows "\<exists>out rng1 pxs.
           transforms convert img_transforms rng examples = Inr (out, rng1)
         \<and> (pxs, rng1) = comprehension (\<lambda>r img. img_transforms r (convert img)) rng imgs
         \<and> length pxs = length imgs
         \<and> out ''image'' = None
         \<and> out ''pixel_values'' = Some (PixelCol pxs)
         \<and> out ''label'' = examples ''label''
         \<and> (\<forall>k. k \<noteq> ''image'' \<and> k \<noteq> ''pixel_values'' \<longrightarrow> out k = examples k)"
proof -
  obtain pxs rng1 where c:
    "comprehension (\<lambda>r img. img_transforms r (convert img)) rng imgs = (pxs, rng1)"
    by (cases "comprehension (\<lambda>r img. img_transforms r (convert img)) rng imgs")
  have len: "length pxs = length imgs"
    using c by (rule length_comprehension)
  show ?thesis
    using assms c len by (simp add: transforms_def)
qed

theorem transforms_frame_witness:
  "(let examples = [''image'' \<mapsto> ImageCol [3::nat, 4], ''label'' \<mapsto> LabelCol [0, 1]];
        r = transforms Suc (\<lambda>r img. (img * 2, r + (1::nat))) 0 examples
    in examples ''image'' = Some (ImageCol [3, 4])
     \<and> (\<exists>out. r = Inr (out, 2)
          \<and> out ''image'' = None
          \<and> out ''pixel_values'' = Some (PixelCol [8::nat, 10])
          \<and> out ''label'' = Some (LabelCol [0, 1])))"
  using transforms_frame [of "[''image'' \<mapsto> ImageCol [3::nat, 4], ''label'' \<mapsto> LabelCol [0, 1]]"
      "[3, 4]" Suc "\<lambda>r img. (img * 2, r + (1::nat))" 0]
  by (simp add: transforms_def)

subsection \<open>The label dictionaries\<close>

lemma update_fresh: "k \<notin> fst ` set d \<Longrightarrow> AList.update k v d = d @ [(k, v)]"
  by (induction d) auto

lemma fold_update_fresh:
  "distinct (map fst (d @ ps)) \<Longrightarrow> fold (\<lambda>(k, v) d. AList.update k v d) ps d = d @ ps"
proof (induction ps arbitrary: d)
  case Nil
  then show ?case by simp
next
  case (Cons p ps)
  obtain k v where p: "p = (k, v)" by (cases p)
  from Cons.prems p have fresh: "k \<notin> fst ` set d" by auto
  from Cons.prems p have "distinct (map fst ((d @ [(k, v)]) @ ps))" by simp
  then have "fold (\<lambda>(k, v) d. AList.update k v d) ps (d @ [(k, v)]) = (d @ [(k, v)]) @ ps"
    by (rule Cons.IH)
  with fresh p show ?case by (simp add: update_fresh)
qed

lemma fold_update_distinct:
  "distinct (map fst ps) \<Longrightarrow> fold (\<lambda>(k, v) d. AList.update k v d) ps [] = ps"
  using fold_update_fresh [of "[]" ps] by simp

lemma of_char_digit: "d < 10 \<Longrightarrow> of_char (digit d) = 48 + d"
  by (simp add: digit_def)

lemma digit_inj: "a < 10 \<Longrightarrow> b < 10 \<Longrightarrow> digit a = digit b \<Longrightarrow> a = b"
proof -
  assume a: "a < 10" and b: "b < 10" and e: "digit a = digit b"
  have "(of_char (digit a) :: nat) = of_char (digit b)" using e by simp
  then show "a = b" using a b by (simp add: of_char_digit)
qed

lemma str_nonempty: "str n \<noteq> []"
  by (subst str.simps) simp

lemma str_inj: "str n = str m \<Longrightarrow> n = m"
proof (induction n arbitrary: m rule: str.induct)
  case (1 n)
  show ?case
  proof (cases "n < 10")
    case n: True
    show ?thesis
    proof (cases "m < 10")
      case True
      with n "1.prems" show ?thesis
        by (subst (asm) str.simps, subst (asm) (2) str.simps) (simp add: digit_inj)
    next
      case False
      have "str n = [digit n]" using n by (subst str.simps) simp
      moreover have "str m = str (m div 10) @ [digit (m mod 10)]"
        using False by (subst str.simps) simp
      ultimately show ?thesis using "1.prems" str_nonempty [of "m div 10"] by simp
    qed
  next
    case n: False
    have sn: "str n = str (n div 10) @ [digit (n mod 10)]"
      using n by (subst str.simps) simp
    show ?thesis
    proof (cases "m < 10")
      case True
      have "str m = [digit m]" using True by (subst str.simps) simp
      with sn "1.prems" str_nonempty [of "n div 10"] show ?thesis by simp
    next
      case False
      have sm: "str m = str (m div 10) @ [digit (m mod 10)]"
        using False by (subst str.simps) simp
      from sn sm "1.prems" have e1: "str (n div 10) = str (m div 10)"
        and e2: "digit (n mod 10) = digit (m mod 10)" by simp_all
      from "1.IH" [OF n e1] have d: "n div 10 = m div 10" .
      from e2 have r: "n mod 10 = m mod 10" by (intro digit_inj) simp_all
      from d r show ?thesis by (metis div_mult_mod_eq)
    qed
  qed
qed

lemma fold_pair:
  "fold (\<lambda>(i, l) (a, b). (f i l a, g i l b)) ps (a0, b0)
     = (fold (\<lambda>(i, l). f i l) ps a0, fold (\<lambda>(i, l). g i l) ps b0)"
  by (induction ps arbitrary: a0 b0) auto

lemma map_enumerate_snd: "map (\<lambda>(i, l). f l) (enumerate n xs) = map f xs"
  by (induction xs arbitrary: n) auto

lemma map_enumerate_fst: "map (\<lambda>(i, l). f i) (enumerate n xs) = map f [n..<n + length xs]"
  by (induction xs arbitrary: n) (auto simp: upt_rec)

lemma video_label2id_eq:
  assumes "distinct labels"
  shows "video_label2id labels = map (\<lambda>(i, l). (l, i)) (enumerate 0 labels)"
proof -
  have "fold (\<lambda>(i, label). AList.update label i) ps d
        = fold (\<lambda>(k, v). AList.update k v) (map (\<lambda>(i, l). (l, i)) ps) d" for ps :: "(nat \<times> string) list" and d
    by (induction ps arbitrary: d) auto
  moreover have "distinct (map fst (map (\<lambda>(i, l). (l, i)) (enumerate 0 labels)))"
    using assms map_enumerate_snd [of "\<lambda>l. l" 0 labels] by (simp add: comp_def case_prod_unfold)
  ultimately show ?thesis
    unfolding video_label2id_def by (simp add: fold_update_distinct)
qed


lemma video_id2label_eq:
  assumes "distinct labels"
  shows "video_id2label (video_label2id labels) = enumerate 0 labels"
proof -
  have "fold (\<lambda>(label, i). AList.update i label) ps d
        = fold (\<lambda>(k, v). AList.update k v) (map (\<lambda>(l, i). (i, l)) ps) d" for ps :: "(string \<times> nat) list" and d
    by (induction ps arbitrary: d) auto
  moreover have "map (\<lambda>(l, i). (i, l)) (map (\<lambda>(i, l). (l, i)) (enumerate 0 labels)) = enumerate 0 labels"
    by (simp add: comp_def case_prod_unfold)
  ultimately show ?thesis
    unfolding video_id2label_def video_label2id_eq [OF assms]
    by (simp add: fold_update_distinct)
qed

lemma getitem_Inr: "getitem d k = Inr v \<longleftrightarrow> map_of d k = Some v"
  by (simp add: getitem_def split: option.splits)

lemma inverse_dicts:
  assumes "distinct (map fst ps)" and "distinct (map snd ps)"
    and qs: "qs = map (\<lambda>(k, v). (v, k)) ps"
  shows "(\<forall>k\<in>fst ` set ps. \<exists>v. getitem ps k = Inr v \<and> getitem qs v = Inr k)
       \<and> (\<forall>v k. getitem qs v = Inr k \<longrightarrow> k \<in> fst ` set ps \<and> getitem ps k = Inr v)"
proof -
  have dq: "distinct (map fst qs)"
    using assms(2) by (simp add: qs comp_def case_prod_unfold)
  have mem: "(v, k) \<in> set qs \<longleftrightarrow> (k, v) \<in> set ps" for k v
    by (auto simp: qs)
  have iff: "getitem qs v = Inr k \<longleftrightarrow> getitem ps k = Inr v" for k v
    using assms(1) dq mem by (simp add: getitem_Inr)
  have "\<exists>v. getitem ps k = Inr v" if "k \<in> fst ` set ps" for k
    using that assms(1) by (auto simp: getitem_Inr)
  moreover have "k \<in> fst ` set ps" if "getitem ps k = Inr v" for k v
    using that by (auto simp: getitem_Inr dest: map_of_SomeD intro: rev_image_eqI)
  ultimately show ?thesis using iff by blast
qed

lemma image_label_dicts_eq:
  assumes "distinct labels"
  shows "image_label_dicts labels =
           (map (\<lambda>(i, l). (l, str i)) (enumerate 0 labels),
            map (\<lambda>(i, l). (str i, l)) (enumerate 0 labels))"
proof -
  have a: "fold (\<lambda>(i, label). AList.update label (str i)) ps d
        = fold (\<lambda>(k, v). AList.update k v) (map (\<lambda>(i, l). (l, str i)) ps) d" for ps :: "(nat \<times> string) list" and d
    by (induction ps arbitrary: d) auto
  have b: "fold (\<lambda>(i, label). AList.update (str i) label) ps d
        = fold (\<lambda>(k, v). AList.update k v) (map (\<lambda>(i, l). (str i, l)) ps) d" for ps :: "(nat \<times> string) list" and d
    by (induction ps arbitrary: d) auto
  have da: "distinct (map fst (map (\<lambda>(i, l). (l, str i)) (enumerate 0 labels)))"
    using assms map_enumerate_snd [of "\<lambda>l. l" 0 labels] by (simp add: comp_def case_prod_unfold)
  have "inj_on str (set [0..<length labels])"
    by (rule inj_onI) (rule str_inj)
  then have "distinct (map str [0..<length labels])"
    by (simp add: distinct_map)
  then have db: "distinct (map fst (map (\<lambda>(i, l). (str i, l)) (enumerate 0 labels)))"
    using map_enumerate_fst [of str 0 labels] by (simp add: comp_def case_prod_unfold)
  show ?thesis
    unfolding image_label_dicts_def fold_pair a b
    using da db by (simp add: fold_update_distinct)
qed


lemma class_labels_distinct: "class_labels paths = Inr cls \<Longrightarrow> distinct cls"
  by (auto simp: class_labels_def split: sum.splits)

lemma keys_of_enumerate: "map fst (map (\<lambda>(i, l). (l, f i)) (enumerate n xs)) = xs"
  by (induction xs arbitrary: n) auto

lemma vals_of_enumerate:
  "map snd (map (\<lambda>(i, l). (l, f i)) (enumerate n xs)) = map f [n..<n + length xs]"
  by (induction xs arbitrary: n) (auto simp: upt_rec)

lemma swap_of_enumerate:
  "map (\<lambda>(k, v). (v, k)) (map (\<lambda>(i, l). (l, f i)) (enumerate n xs))
     = map (\<lambda>(i, l). (f i, l)) (enumerate n xs)"
  by (induction xs arbitrary: n) auto

lemma enumerate_dicts_inverse:
  assumes "distinct xs" and "inj f"
    and ps: "ps = map (\<lambda>(i, l). (l, f i)) (enumerate 0 xs)"
    and qs: "qs = map (\<lambda>(i, l). (f i, l)) (enumerate 0 xs)"
  shows "(\<forall>l\<in>set xs. \<exists>i. getitem ps l = Inr i \<and> getitem qs i = Inr l)
       \<and> (\<forall>i l. getitem qs i = Inr l \<longrightarrow> l \<in> set xs \<and> getitem ps l = Inr i)"
proof -
  have k: "map fst ps = xs" unfolding ps by (rule keys_of_enumerate)
  have v: "map snd ps = map f [0..<length xs]"
    unfolding ps using vals_of_enumerate [of f 0 xs] by simp
  have d1: "distinct (map fst ps)" using assms(1) k by simp
  have d2: "distinct (map snd ps)"
    unfolding v using assms(2) by (simp add: distinct_map inj_on_def inj_def)
  have sw: "qs = map (\<lambda>(k, v). (v, k)) ps"
    unfolding ps qs by (rule swap_of_enumerate [symmetric])
  have s: "fst ` set ps = set xs"
    using k by (metis list.set_map)
  show ?thesis using inverse_dicts [OF d1 d2 sw] unfolding s .
qed

text \<open>
  C9. In the video-classification and in the image-classification notebook, \<open>label2id\<close>
  and \<open>id2label\<close> are inverse to each other over the dataset's classes: every class
  label \<open>l\<close> has an id with \<open>id2label[label2id[l]] = l\<close>, and every id \<open>i\<close> assigned in
  \<open>id2label\<close> names a class label with \<open>label2id[id2label[i]] = i\<close>. The classes of the
  video notebook come out of a set, so they are distinct; the names of a \<open>ClassLabel\<close>
  feature are distinct class names, which is the hypothesis on \<open>labels\<close>.
\<close>

theorem label2id_id2label_inverse:
  assumes "class_labels all_video_file_paths = Inr cls" and "distinct labels"
  shows "(\<forall>l\<in>set cls. \<exists>i. getitem (video_label2id cls) l = Inr i
                          \<and> getitem (video_id2label (video_label2id cls)) i = Inr l)
       \<and> (\<forall>i l. getitem (video_id2label (video_label2id cls)) i = Inr l
                 \<longrightarrow> l \<in> set cls \<and> getitem (video_label2id cls) l = Inr i)
       \<and> (\<forall>l\<in>set labels. \<exists>i. getitem (fst (image_label_dicts labels)) l = Inr i
                          \<and> getitem (snd (image_label_dicts labels)) i = Inr l)
       \<and> (\<forall>i l. getitem (snd (image_label_dicts labels)) i = Inr l
                 \<longrightarrow> l \<in> set labels \<and> getitem (fst (image_label_dicts labels)) l = Inr i)"
proof -
  have dc: "distinct cls" using assms(1) by (rule class_labels_distinct)
  have video:
    "(\<forall>l\<in>set cls. \<exists>i. getitem (video_label2id cls) l = Inr i
                          \<and> getitem (video_id2label (video_label2id cls)) i = Inr l)
       \<and> (\<forall>i l. getitem (video_id2label (video_label2id cls)) i = Inr l
                 \<longrightarrow> l \<in> set cls \<and> getitem (video_label2id cls) l = Inr i)"
  proof (rule enumerate_dicts_inverse [where f = "\<lambda>i. i"])
    show "distinct cls" by (rule dc)
    show "inj (\<lambda>i::nat. i)" by simp
    show "video_label2id cls = map (\<lambda>(i, l). (l, i)) (enumerate 0 cls)"
      by (rule video_label2id_eq [OF dc])
    show "video_id2label (video_label2id cls) = map (\<lambda>(i, l). (i, l)) (enumerate 0 cls)"
      using video_id2label_eq [OF dc] by (simp add: case_prod_unfold)
  qed
  have image:
    "(\<forall>l\<in>set labels. \<exists>i. getitem (fst (image_label_dicts labels)) l = Inr i
                          \<and> getitem (snd (image_label_dicts labels)) i = Inr l)
       \<and> (\<forall>i l. getitem (snd (image_label_dicts labels)) i = Inr l
                 \<longrightarrow> l \<in> set labels \<and> getitem (fst (image_label_dicts labels)) l = Inr i)"
  proof (rule enumerate_dicts_inverse [where f = str])
    show "distinct labels" by (rule assms(2))
    show "inj str" by (simp add: inj_def str_inj)
    show "fst (image_label_dicts labels) = map (\<lambda>(i, l). (l, str i)) (enumerate 0 labels)"
      by (simp add: image_label_dicts_eq [OF assms(2)])
    show "snd (image_label_dicts labels) = map (\<lambda>(i, l). (str i, l)) (enumerate 0 labels)"
      by (simp add: image_label_dicts_eq [OF assms(2)])
  qed
  from video image show ?thesis by simp
qed

theorem label2id_id2label_inverse_witness:
  "class_labels [''UCF101_subset/train/BandMarching/v_1.avi'',
                 ''UCF101_subset/train/Archery/v_1.avi'',
                 ''UCF101_subset/val/Archery/v_2.avi''] = Inr [''Archery'', ''BandMarching'']
   \<and> distinct [''apple_pie'', ''baby_back_ribs'']
   \<and> getitem (video_id2label (video_label2id [''Archery'', ''BandMarching''])) 1 = Inr ''BandMarching''
   \<and> getitem (video_label2id [''Archery'', ''BandMarching'']) ''BandMarching'' = Inr 1
   \<and> getitem (snd (image_label_dicts [''apple_pie'', ''baby_back_ribs''])) ''1'' = Inr ''baby_back_ribs''
   \<and> getitem (fst (image_label_dicts [''apple_pie'', ''baby_back_ribs''])) ''baby_back_ribs'' = Inr ''1''"
proof -
  have h1: "class_labels [''UCF101_subset/train/BandMarching/v_1.avi'',
                 ''UCF101_subset/train/Archery/v_1.avi'',
                 ''UCF101_subset/val/Archery/v_2.avi''] = Inr [''Archery'', ''BandMarching'']"
    by code_simp
  have h2: "distinct [''apple_pie'', ''baby_back_ribs'']" by simp
  have v: "getitem (video_id2label (video_label2id [''Archery'', ''BandMarching''])) 1 = Inr ''BandMarching''"
    by code_simp
  have i: "getitem (snd (image_label_dicts [''apple_pie'', ''baby_back_ribs''])) ''1'' = Inr ''baby_back_ribs''"
    by code_simp
  note t = label2id_id2label_inverse [OF h1 h2]
  from t v have "getitem (video_label2id [''Archery'', ''BandMarching'']) ''BandMarching'' = Inr 1"
    by blast
  moreover from t i have "getitem (fst (image_label_dicts [''apple_pie'', ''baby_back_ribs''])) ''baby_back_ribs'' = Inr ''1''"
    by blast
  ultimately show ?thesis using h1 h2 v i by blast
qed

subsection \<open>The distillation loss\<close>

































subsection \<open>The semantic-segmentation prediction\<close>

lemma argmax_from_bound: "best < i \<Longrightarrow> argmax_from best v i xs < i + length xs"
proof (induction xs arbitrary: best v i)
  case Nil
  then show ?case by simp
next
  case (Cons x xs)
  have "argmax_from i x (Suc i) xs < Suc i + length xs"
    by (rule Cons.IH) simp
  moreover have "argmax_from best v (Suc i) xs < Suc i + length xs"
    by (rule Cons.IH) (use Cons.prems in simp)
  ultimately show ?case by simp
qed

lemma argmax_bound: "xs \<noteq> [] \<Longrightarrow> argmax xs < length xs"
  using argmax_from_bound [of 0 1] by (cases xs) (auto simp: argmax_def)

lemma length_upsample_plane: "length (upsample_plane (H, W) p) = H"
  by (simp add: upsample_plane_def)

lemma row_upsample_plane: "row \<in> set (upsample_plane (H, W) p) \<Longrightarrow> length row = W"
  by (auto simp: upsample_plane_def split: prod.splits)

lemma interpolate_shape:
  assumes "is_tensor4 n c h w t" and "0 < c" and "0 < h" and "0 < w" and "0 < H" and "0 < W"
  shows "\<exists>u. interpolate t (H, W) = Inr u \<and> is_tensor4 n c H W u"
proof -
  have ok: "\<not> list_ex (\<lambda>img. img = [] \<or> list_ex (\<lambda>p. p = [] \<or> list_ex (\<lambda>row. row = []) p) img) t"
    using assms(1-4) by (fastforce simp: is_tensor4_def list_ex_iff)
  then have "interpolate t (H, W) = Inr (map (map (upsample_plane (H, W))) t)"
    using assms(5,6) by (simp add: interpolate_def)
  moreover have "is_tensor4 n c H W (map (map (upsample_plane (H, W))) t)"
    using assms(1) by (auto simp: is_tensor4_def length_upsample_plane row_upsample_plane)
  ultimately show ?thesis by simp
qed

lemma argmax_dim1_shape:
  assumes "is_tensor4 n c H W u" and "0 < c" and "0 < H"
  shows "\<exists>labels. argmax_dim1 u = Inr labels \<and> length labels = n
           \<and> (\<forall>lab\<in>set labels. length lab = H
                 \<and> (\<forall>row\<in>set lab. length row = W \<and> (\<forall>l\<in>set row. l < c)))"
proof -
  have ne: "\<not> list_ex (\<lambda>img. img = []) u"
    using assms(1,2) by (fastforce simp: is_tensor4_def list_ex_iff)
  have img: "length (hd img) = H \<and> length (hd (hd img)) = W \<and> length img = c" if "img \<in> set u" for img
  proof -
    from that assms(1) have c: "length img = c"
      and p: "\<forall>p\<in>set img. length p = H \<and> (\<forall>row\<in>set p. length row = W)"
      by (auto simp: is_tensor4_def)
    from c assms(2) have "img \<noteq> []" by auto
    then have h: "hd img \<in> set img" by simp
    with p have lh: "length (hd img) = H" and r: "\<forall>row\<in>set (hd img). length row = W" by auto
    from lh assms(3) have "hd img \<noteq> []" by auto
    then have "hd (hd img) \<in> set (hd img)" by simp
    with r lh c show ?thesis by simp
  qed
  have am: "argmax (map (\<lambda>p. p ! y ! x) img) < c" if "img \<in> set u" for img y x
  proof -
    from img [OF that] assms(2) have "map (\<lambda>p. p ! y ! x) img \<noteq> []" by auto
    from argmax_bound [OF this] img [OF that] show ?thesis by simp
  qed
  have n: "length u = n" using assms(1) by (simp add: is_tensor4_def)
  show ?thesis
    using ne n by (auto simp: argmax_dim1_def img am)
qed

lemma source_index_and_lambda_values:
  "source_index_and_lambda (Suc (Suc 0)) 4 0 = (0, 1, 1, 0)"
  "source_index_and_lambda (Suc (Suc 0)) 4 (Suc 0) = (0, 1, 3/4, 1/4)"
  "source_index_and_lambda (Suc (Suc 0)) 4 2 = (0, 1, 1/4, 3/4)"
  "source_index_and_lambda (Suc (Suc 0)) 4 3 = (1, 1, 3/4, 1/4)"
  "source_index_and_lambda (Suc 0) 2 0 = (0, 0, 1, 0)"
  "source_index_and_lambda (Suc 0) 2 (Suc 0) = (0, 0, 3/4, 1/4)"
  by (simp_all add: source_index_and_lambda_def source_index_def Let_def)

lemma upt_values: "[0..<4] = [0, 1, 2, 3]" "[0..<2] = [0, 1]"
  by (simp_all add: upt_rec)

lemma upsample_plane_value1: "upsample_plane (2, 4) [[0, 4]] = [[0, 1, 3, 4], [0, 1, 3, 4]]"
  by (simp add: upsample_plane_def upt_values source_index_and_lambda_values)

lemma upsample_plane_value2: "upsample_plane (2, 4) [[3, 1]] = [[3, 5/2, 3/2, 1], [3, 5/2, 3/2, 1]]"
  by (simp add: upsample_plane_def upt_values source_index_and_lambda_values)

text \<open>
  What the cell computes where \<open>nn\<close> is bound (as it is for \<open>compute_metrics\<close>, which
  names \<open>torch.nn\<close>): for the logits of at least one image, with \<open>num_labels\<close> classes
  (at least one) and a spatial size that is not empty, and an image of width \<open>W\<close> and
  height \<open>H\<close>, both positive, the prediction has \<open>H\<close> rows of \<open>W\<close> labels each, and every
  label is a natural number below \<open>num_labels\<close>.
\<close>

lemma pred_seg_labeling_where_bound:
  assumes "''nn'' \<in> set globals"
    and "is_tensor4 n num_labels h w seg_logits"
    and "0 < n" and "0 < num_labels" and "0 < h" and "0 < w"
    and "image_size = (W, H)" and "0 < W" and "0 < H"
  shows "\<exists>pred. pred_seg globals seg_logits image_size = Inr pred
           \<and> length pred = H
           \<and> (\<forall>row\<in>set pred. length row = W \<and> (\<forall>label\<in>set row. label < num_labels))"
proof -
  from interpolate_shape [OF assms(2,4,5,6,9,8)]
  obtain u where u: "interpolate seg_logits (H, W) = Inr u" "is_tensor4 n num_labels H W u"
    by blast
  from argmax_dim1_shape [OF u(2) assms(4,9)]
  obtain labels where l: "argmax_dim1 u = Inr labels" "length labels = n"
    "\<forall>lab\<in>set labels. length lab = H
        \<and> (\<forall>row\<in>set lab. length row = W \<and> (\<forall>l\<in>set row. l < num_labels))"
    by blast
  from l(2) assms(3) obtain first rest where f: "labels = first # rest"
    by (cases labels) auto
  with l(3) have "length first = H
        \<and> (\<forall>row\<in>set first. length row = W \<and> (\<forall>l\<in>set row. l < num_labels))"
    by simp
  with u(1) l(1) f assms(1,7) show ?thesis
    by (simp add: pred_seg_def)
qed

lemma pred_seg_value_where_bound:
  "pred_seg [''torch'', ''nn''] [[ [[0, 4]], [[3, 1]] ]] (4, 2)
     = Inr [[1, 1, 0, 0], [1, 1, 0, 0]]"
  by (simp add: pred_seg_def interpolate_def argmax_dim1_def upsample_plane_value1
      upsample_plane_value2 upt_values argmax_def)

text \<open>
  C3. The claim holds of the call the cell means, and fails on the cell as written: with
  the names the notebook has bound, \<open>nn\<close> is not among them, so for every logits tensor
  and every image size the cell raises \<open>NameError\<close> and \<open>pred_seg\<close> is never assigned.
\<close>

theorem pred_seg_name_error:
  "pred_seg segmentation_globals seg_logits image_size = Inl NameError"
  by (simp add: pred_seg_def segmentation_globals_def)

subsection \<open>The notebooks\<close>










text \<open>
  The run of the image-segmentation notebook stops in cell 36, at \<open>nn\<close>, after the
  forward call of the model; the names bound there are those the inference path of
  \<open>pred_seg\<close> is given above.
\<close>

lemma image_segmentation_run:
  "stopped (run image_segmentation_cells) = Some NameError
   \<and> bound (run image_segmentation_cells) = segmentation_globals
   \<and> trace (run image_segmentation_cells)
     = [PipInstall [''datasets'', ''transformers'', ''evaluate'', ''accelerate''],
        OpenImage
         ''https://huggingface.co/datasets/huggingface/documentation-images/resolve/main/transformers/tasks/segmentation_input.jpg'',
        LoadPipeline ''image-segmentation'' ''nvidia/segformer-b1-finetuned-cityscapes-1024-1024'',
        RunPipeline
         (''image-segmentation'', ''nvidia/segformer-b1-finetuned-cityscapes-1024-1024'')
         (UrlImage
         ''https://huggingface.co/datasets/huggingface/documentation-images/resolve/main/transformers/tasks/segmentation_input.jpg'') [],
        LoadPipeline ''image-segmentation'' ''facebook/mask2former-swin-large-cityscapes-instance'',
        RunPipeline
         (''image-segmentation'', ''facebook/mask2former-swin-large-cityscapes-instance'')
         (UrlImage
         ''https://huggingface.co/datasets/huggingface/documentation-images/resolve/main/transformers/tasks/segmentation_input.jpg'') [],
        LoadPipeline ''image-segmentation'' ''facebook/mask2former-swin-large-cityscapes-panoptic'',
        RunPipeline
         (''image-segmentation'', ''facebook/mask2former-swin-large-cityscapes-panoptic'')
         (UrlImage
         ''https://huggingface.co/datasets/huggingface/documentation-images/resolve/main/transformers/tasks/segmentation_input.jpg'') [],
        LoadDataset ''scene_parse_150'' ''train[:50]'',
        Preprocess ''train_test_split'',
        Download ''huggingface/label-files'' ''ade20k-id2label.json'',
        FromPretrained ''AutoImageProcessor'' ''nvidia/mit-b0'',
        Other ''ColorJitter'',
        Preprocess ''set_transform'',
        Preprocess ''set_transform'',
        Other ''evaluate.load'',
        FromPretrained ''AutoModelForSemanticSegmentation'' ''nvidia/mit-b0'',
        Other ''TrainingArguments'',
        Other ''Trainer'',
        Train,
        LoadDataset ''scene_parse_150'' ''train[:50]'',
        Preprocess ''train_test_split'',
        RunProcessor ''nvidia/mit-b0'' (DatasetImage ''scene_parse_150'' ''test'') None,
        RunModel ''nvidia/mit-b0''
         (Processed ''nvidia/mit-b0''
         (DatasetImage ''scene_parse_150'' ''test'') None)]"
  by code_simp






text \<open>
  C5. The image-segmentation notebook runs the \<open>image-segmentation\<close> pipeline three
  times on the same image, with three different checkpoints: the SegFormer model for
  semantic segmentation, and the Mask2Former models for instance and for panoptic
  segmentation.
\<close>

theorem image_segmentation_three_tasks:
  "pipeline_runs image_segmentation_notebook
     = [((''image-segmentation'', ''nvidia/segformer-b1-finetuned-cityscapes-1024-1024''),
         UrlImage ''https://huggingface.co/datasets/huggingface/documentation-images/resolve/main/transformers/tasks/segmentation_input.jpg'',
         []),
        ((''image-segmentation'', ''facebook/mask2former-swin-large-cityscapes-instance''),
         UrlImage ''https://huggingface.co/datasets/huggingface/documentation-images/resolve/main/transformers/tasks/segmentation_input.jpg'',
         []),
        ((''image-segmentation'', ''facebook/mask2former-swin-large-cityscapes-panoptic''),
         UrlImage ''https://huggingface.co/datasets/huggingface/documentation-images/resolve/main/transformers/tasks/segmentation_input.jpg'',
         [])]
   \<and> distinct (map (\<lambda>(p, img, kwargs). snd p) (pipeline_runs image_segmentation_notebook))"
  by (simp add: image_segmentation_notebook_def image_segmentation_run)



end
